theory Spec2Isabelle
  imports Complex_Main "HOL-Library.Sublist"
begin

section \<open>Priors of critter (critter/blocks/priors.py)\<close>

text \<open>
  The module turns a prior of a birth-death model into fragments of markup for BEAST. The
  embedding follows the Python source: the pydantic model \<open>Prior\<close> is a record, each
  property is a function on it, a raised exception is the left summand of a sum, and each
  \<open>for\<close> loop is a recursive function that carries the string it builds.

  Python objects stored in the untyped lists \<open>initial\<close> and \<open>intervals\<close> are values of a
  type \<open>'v\<close>. Python's built-in \<open>str\<close> on them is a parameter \<open>str\<close> of the functions that
  print them, and \<open>v != 0\<close> is inequality with the zero of \<open>'v\<close>.
\<close>

subsection \<open>Strings\<close>

text \<open>\<open>s.startswith(p)\<close> and \<open>s.startswith((p1, ..., pn))\<close>.\<close>

definition startswith :: "string \<Rightarrow> string \<Rightarrow> bool" where
  "startswith s p = prefix p s"

fun startswith_any :: "string \<Rightarrow> string list \<Rightarrow> bool" where
  "startswith_any s [] = False"
| "startswith_any s (p # ps) = (startswith s p \<or> startswith_any s ps)"

text \<open>\<open>sep.join(xs)\<close>.\<close>

fun join :: "string \<Rightarrow> string list \<Rightarrow> string" where
  "join sep [] = []"
| "join sep [x] = x"
| "join sep (x # y # ys) = x @ sep @ join sep (y # ys)"

text \<open>\<open>str(n)\<close> for a Python integer: decimal digits, with a minus sign below zero.\<close>

definition digit_char :: "nat \<Rightarrow> char" where
  "digit_char d = ''0123456789'' ! d"

fun str_nat :: "nat \<Rightarrow> string" where
  "str_nat n = (if n < 10 then [digit_char n] else str_nat (n div 10) @ [digit_char (n mod 10)])"

declare str_nat.simps [simp del]

definition str_int :: "int \<Rightarrow> string" where
  "str_int i = (if i < 0 then CHR ''-'' # str_nat (nat (- i)) else str_nat (nat i))"

text \<open>\<open>t in s\<close> on strings: \<open>t\<close> occurs in \<open>s\<close> as a contiguous run of characters.\<close>

fun occurs_in :: "string \<Rightarrow> string \<Rightarrow> bool" where
  "occurs_in t [] = (t = [])"
| "occurs_in t (c # cs) = (prefix t (c # cs) \<or> occurs_in t cs)"

subsection \<open>Data model\<close>

text \<open>
  The exceptions that reach the caller. \<open>CritterError\<close> is the module's own, with its
  message. \<open>IndexError\<close> is what Python raises on \<open>xs[0]\<close> of an empty list. \<open>TypeError\<close> is
  what Python raises on a call that lacks a required positional argument, with the name of
  that argument. \<open>ValidationError\<close> is the exception with which pydantic refuses a
  construction: it carries the location it reports (\<open>__root__\<close> for a root validator) and
  the exception that was raised there.
\<close>

datatype error =
    TypeError string
  | CritterError string
  | IndexError
  | ValidationError string error

text \<open>
  The text \<open>t\<close> occurs in what an error carries: the test used to say that an error
  names, or does not name, an identifier.
\<close>

primrec mentions :: "string \<Rightarrow> error \<Rightarrow> bool" where
  "mentions t (TypeError argument) = occurs_in t argument"
| "mentions t (CritterError message) = occurs_in t message"
| "mentions t IndexError = False"
| "mentions t (ValidationError loc e) = (occurs_in t loc \<or> mentions t e)"

text \<open>
  Modelled from the spec: the distribution adapter (\<open>critter.blocks.distributions\<close>, not
  among the sources) "exposes a rendering method producing a markup fragment for itself";
  a distribution is known here by that rendering, its property \<open>xml\<close>.
\<close>

datatype Distribution = Distribution (Distribution_xml: string)

text \<open>A Python float, for the bounds \<open>lower\<close> and \<open>upper\<close> and their defaults.\<close>

datatype pyfloat = NegInfinity | Finite real | Infinity | NaN

text \<open>
  The fields of \<open>Prior\<close>. The field \<open>id\<close> is named \<open>id_str\<close>, since \<open>id\<close> is the identity
  function of HOL.
\<close>

record 'v Prior =
  id_str :: string
  distribution :: "Distribution list"
  initial :: "'v list"
  lower :: pyfloat
  upper :: pyfloat
  dimension :: int
  sliced :: bool
  intervals :: "'v list"
  param_spec :: string

subsection \<open>Construction\<close>

text \<open>
  A pydantic class gives each field without a default as required and each field with a
  default as optional: the keyword arguments of a construction are the two required
  fields and an optional value for every other field, and a class is the tuple of its
  defaults.
\<close>

record 'v kwargs =
  kw_id :: "string option"
  kw_distribution :: "Distribution list"
  kw_initial :: "'v list"
  kw_lower :: "pyfloat option"
  kw_upper :: "pyfloat option"
  kw_dimension :: "int option"
  kw_sliced :: "bool option"
  kw_intervals :: "'v list option"
  kw_param_spec :: "string option"

record 'v defaults =
  default_id :: string
  default_lower :: pyfloat
  default_upper :: pyfloat
  default_dimension :: int
  default_sliced :: bool
  default_intervals :: "'v list"
  default_param_spec :: string

text \<open>
  The body of \<open>class Prior\<close>, given the string that \<open>get_uuid(short=True)\<close> returned when
  the body ran.
\<close>

definition Prior_defaults :: "string \<Rightarrow> 'v defaults" where
  "Prior_defaults uuid =
     \<lparr>default_id = ''Prior.'' @ uuid,
      default_lower = NegInfinity,
      default_upper = Infinity,
      default_dimension = 1,
      default_sliced = False,
      default_intervals = [],
      default_param_spec = ''parameter.RealParameter''\<rparr>"

text \<open>
  Running the class statement: \<open>get_uuid\<close> (of \<open>critter.utils\<close>, not among the sources) is
  a parameter, a step of a generator with state \<open>'g\<close>. It is called here, once, and
  nowhere else in the module.
\<close>

definition Prior_class :: "('g \<Rightarrow> string \<times> 'g) \<Rightarrow> 'g \<Rightarrow> 'v defaults \<times> 'g" where
  "Prior_class get_uuid g = (case get_uuid g of (uuid, g') \<Rightarrow> (Prior_defaults uuid, g'))"

text \<open>The subclasses: each replaces defaults of the class it extends.\<close>

definition Origin :: "'v defaults \<Rightarrow> 'v defaults" where
  "Origin cls = cls\<lparr>default_id := ''origin''\<rparr>"

definition ReproductiveNumber :: "'v defaults \<Rightarrow> 'v defaults" where
  "ReproductiveNumber cls = cls\<lparr>default_id := ''reproductiveNumber''\<rparr>"

definition SamplingProportion :: "'v defaults \<Rightarrow> 'v defaults" where
  "SamplingProportion cls = cls\<lparr>default_id := ''samplingProportion''\<rparr>"

definition BecomeUninfectiousRate :: "'v defaults \<Rightarrow> 'v defaults" where
  "BecomeUninfectiousRate cls = cls\<lparr>default_id := ''becomeUninfectiousRate''\<rparr>"

definition Rho :: "'v defaults \<Rightarrow> 'v defaults" where
  "Rho cls = cls\<lparr>default_id := ''rho''\<rparr>"

definition SamplingProportionMTBD :: "'v defaults \<Rightarrow> 'v defaults" where
  "SamplingProportionMTBD cls = cls\<lparr>default_id := ''samplingProportion''\<rparr>"

definition GroupSize :: "'v defaults \<Rightarrow> 'v defaults" where
  "GroupSize cls =
     cls\<lparr>default_id := ''bGroupSizes'', default_param_spec := ''parameter.IntegerParameter''\<rparr>"

text \<open>The root validator \<open>validate_sliced_id\<close>, run on the field values (the source's
  \<open>fields\<close>) of every construction.\<close>

definition sliced_prefixes :: "string list" where
  "sliced_prefixes =
     [''origin'', ''rho'', ''samplingProportion'', ''reproductiveNumber'', ''becomeUninfectious'']"

definition sliced_id_message :: string where
  "sliced_id_message =
     ''Cannot create a sliced prior that does not belong to a valid birth-death model prior. '' @
     ''Sliced prior model identifier fields must start with one of: '' @
     ''origin, rho, samplingProportion, reproductiveNumber, becomeUninfectious''"

text \<open>
  The expression \<open>ValidationError(message)\<close> of the \<open>raise\<close> statement. The class is the
  one imported from pydantic, whose constructor is \<open>__init__(self, errors, model)\<close>: called
  with one positional argument it raises a \<open>TypeError\<close> for the missing argument \<open>model\<close>,
  so no \<open>ValidationError\<close> is built and the message is lost.
\<close>

definition ValidationError_call :: "string \<Rightarrow> error" where
  "ValidationError_call message = TypeError ''model''"

definition validate_sliced_id :: "'v Prior \<Rightarrow> error + 'v Prior" where
  "validate_sliced_id values =
     (if sliced values \<and> \<not> startswith_any (id_str values) sliced_prefixes
      then Inl (ValidationError_call sliced_id_message)
      else Inr values)"

text \<open>
  \<open>cls(**kw)\<close>: every field takes the keyword argument, or the default of the class where
  none is passed; then the root validator runs. pydantic runs it guarded: a \<open>TypeError\<close>
  (or \<open>ValueError\<close>, or \<open>AssertionError\<close>) raised inside is recorded at the location
  \<open>__root__\<close>, and the construction raises pydantic's \<open>ValidationError\<close> for it.
\<close>

definition the_default :: "'a option \<Rightarrow> 'a \<Rightarrow> 'a" where
  "the_default arg d = (case arg of None \<Rightarrow> d | Some a \<Rightarrow> a)"

definition fields_of :: "'v defaults \<Rightarrow> 'v kwargs \<Rightarrow> 'v Prior" where
  "fields_of cls kw =
     \<lparr>id_str = the_default (kw_id kw) (default_id cls),
      distribution = kw_distribution kw,
      initial = kw_initial kw,
      lower = the_default (kw_lower kw) (default_lower cls),
      upper = the_default (kw_upper kw) (default_upper cls),
      dimension = the_default (kw_dimension kw) (default_dimension cls),
      sliced = the_default (kw_sliced kw) (default_sliced cls),
      intervals = the_default (kw_intervals kw) (default_intervals cls),
      param_spec = the_default (kw_param_spec kw) (default_param_spec cls)\<rparr>"

definition Prior_init :: "'v defaults \<Rightarrow> 'v kwargs \<Rightarrow> error + 'v Prior" where
  "Prior_init cls kw =
     (case validate_sliced_id (fields_of cls kw) of
        Inl e \<Rightarrow> Inl (ValidationError ''__root__'' e)
      | Inr values \<Rightarrow> Inr values)"

subsection \<open>Rendering the prior\<close>

text \<open>The loop of the sliced branch of \<open>Prior.xml\<close>: \<open>i\<close> is the index \<open>enumerate\<close> gives.\<close>

fun xml_loop :: "string \<Rightarrow> nat \<Rightarrow> Distribution list \<Rightarrow> string \<Rightarrow> string" where
  "xml_loop ident i [] sliced_priors = sliced_priors"
| "xml_loop ident i (d # ds) sliced_priors =
     xml_loop ident (i + 1) ds
       (sliced_priors @
        ''<prior id=\"'' @ ident @ ''Slice'' @ str_nat (i + 1) @ ''\" name=\"distribution\" '' @
        ''x=\"@'' @ ident @ str_nat (i + 1) @ ''\">'' @ Distribution_xml d @ ''</prior>'')"

definition xml :: "'v Prior \<Rightarrow> error + string" where
  "xml self =
     (if \<not> sliced self then
        (case distribution self of
           [] \<Rightarrow> Inl IndexError
         | d # _ \<Rightarrow>
             Inr (''<prior id=\"'' @ id_str self @ ''Prior\" name=\"distribution\" '' @
                  ''x=\"@'' @ id_str self @ ''\">'' @ Distribution_xml d @ ''</prior>''))
      else Inr (xml_loop (id_str self) 0 (distribution self) []))"

text \<open>\<open>SamplingProportionMTBD.get_include_string\<close> and the \<open>xml\<close> that overrides \<open>Prior.xml\<close>.\<close>

definition get_include_string :: "('v::zero) Prior \<Rightarrow> string" where
  "get_include_string self =
     join '' '' (map (\<lambda>v. if v \<noteq> 0 then ''true'' else ''false'') (initial self))"

definition SamplingProportionMTBD_xml :: "('v::zero) Prior \<Rightarrow> error + string" where
  "SamplingProportionMTBD_xml self =
     (case distribution self of
        [] \<Rightarrow> Inl IndexError
      | d # _ \<Rightarrow>
          Inr (''<distribution id=\"'' @ id_str self @ ''Prior\" '' @
               ''spec=\"multitypetree.distributions.ExcludablePrior\" x=\"@'' @ id_str self @ ''\">'' @
               ''<xInclude id=\"samplingProportionXInclude\" spec=\"parameter.BooleanParameter\" '' @
               ''dimension=\"'' @ str_int (dimension self) @ ''\">'' @
               get_include_string self @ ''</xInclude>'' @ Distribution_xml d @
               ''</distribution>''))"

subsection \<open>Rendering the parameter\<close>

text \<open>
  The \<open>value\<close> that \<open>xml_param\<close> passes on is a string when \<open>initial\<close> has more than one
  element, and the element itself otherwise.
\<close>

datatype 'v param_value = Str string | Obj 'v

record 'v RealParameter =
  rp_id :: string
  rp_name :: string
  rp_value :: "'v param_value"
  rp_spec :: string
  rp_dimension :: int
  rp_lower :: pyfloat
  rp_upper :: pyfloat

definition xml_param_initial :: "('v \<Rightarrow> string) \<Rightarrow> 'v Prior \<Rightarrow> error + 'v param_value" where
  "xml_param_initial str self =
     (if length (initial self) > 1 then Inr (Str (join '' '' (map str (initial self))))
      else (case initial self of [] \<Rightarrow> Inl IndexError | v # _ \<Rightarrow> Inr (Obj v)))"

text \<open>
  \<open>RealParameter\<close> (\<open>critter.blocks.parameters\<close>, not among the sources) is known by its
  keyword arguments; its property \<open>xml\<close> is the parameter \<open>RealParameter_xml\<close>.
\<close>

definition xml_param ::
  "('v RealParameter \<Rightarrow> string) \<Rightarrow> ('v \<Rightarrow> string) \<Rightarrow> 'v Prior \<Rightarrow> error + string" where
  "xml_param RealParameter_xml str self =
     (case xml_param_initial str self of
        Inl e \<Rightarrow> Inl e
      | Inr init \<Rightarrow>
          Inr (RealParameter_xml
                 \<lparr>rp_id = id_str self, rp_name = ''stateNode'', rp_value = init,
                  rp_spec = param_spec self, rp_dimension = dimension self,
                  rp_lower = lower self, rp_upper = upper self\<rparr>))"

text \<open>
  Modelled from the spec: the value text of the parameter adapter, which is absent. The
  spec has the adapter take a "formatted initial value" as \<open>value_text\<close>: a string is that
  text, and another object is printed by \<open>str\<close>, as an f-string prints it.
\<close>

definition value_text :: "('v \<Rightarrow> string) \<Rightarrow> 'v param_value \<Rightarrow> string" where
  "value_text str v = (case v of Str s \<Rightarrow> s | Obj x \<Rightarrow> str x)"

subsection \<open>Rendering the slices\<close>

fun xml_slice_function_loop :: "string \<Rightarrow> nat \<Rightarrow> Distribution list \<Rightarrow> string \<Rightarrow> string" where
  "xml_slice_function_loop ident i [] acc = acc"
| "xml_slice_function_loop ident i (d # ds) acc =
     xml_slice_function_loop ident (i + 1) ds
       (acc @
        ''<function spec=\"beast.core.util.Slice\" id=\"'' @ ident @ str_nat (i + 1) @ ''\" '' @
        ''arg=\"@'' @ ident @ ''\" index=\"'' @ str_nat i @ ''\" count=\"1\"/>\<newline>'')"

definition xml_slice_function :: "'v Prior \<Rightarrow> string" where
  "xml_slice_function self =
     (if \<not> sliced self then ''''
      else xml_slice_function_loop (id_str self) 0 (distribution self) [])"

definition rate_change_times_message :: string where
  "rate_change_times_message =
     ''Rate change times (slices or intervals) are only defined for: '' @
     ''rho and samplingProportion (<samplingRateChangeTimes/>), '' @
     ''reproductiveNumber (<birthRateChangeTimes/>) and'' @
     ''becomeUninfectious (<deathRateChangeTime/>) priors''"

definition rate_change_times_tag :: "string \<Rightarrow> error + string" where
  "rate_change_times_tag ident =
     (if startswith ident ''samplingProportion'' then Inr ''samplingRateChangeTimes''
      else if startswith ident ''rho'' then Inr ''samplingRateChangeTimes''
      else if startswith ident ''reproductiveNumber'' then Inr ''birthRateChangeTimes''
      else if startswith ident ''becomeUninfectious'' then Inr ''deathRateChangeTimes''
      else Inl (CritterError rate_change_times_message))"

definition xml_slice_rate_change_times :: "('v \<Rightarrow> string) \<Rightarrow> 'v Prior \<Rightarrow> error + string" where
  "xml_slice_rate_change_times str self =
     (if \<not> sliced self then Inr ''''
      else
        (case rate_change_times_tag (id_str self) of
           Inl e \<Rightarrow> Inl e
         | Inr rate_change_times \<Rightarrow>
             Inr (''<'' @ rate_change_times @
                  '' spec=\"beast.core.parameter.RealParameter\" value=\"'' @
                  join '' '' (map str (intervals self)) @ ''\"/>'')))"

fun xml_slice_logger_loop :: "string \<Rightarrow> nat \<Rightarrow> Distribution list \<Rightarrow> string \<Rightarrow> string" where
  "xml_slice_logger_loop ident i [] loggers = loggers"
| "xml_slice_logger_loop ident i (d # ds) loggers =
     xml_slice_logger_loop ident (i + 1) ds
       (loggers @ ''<log idref=\"'' @ ident @ str_nat (i + 1) @ ''\"/>\<newline>'')"

definition xml_slice_logger :: "'v Prior \<Rightarrow> string" where
  "xml_slice_logger self =
     (if \<not> sliced self then ''''
      else xml_slice_logger_loop (id_str self) 0 (distribution self) [])"

subsection \<open>The fragments as the specification describes them\<close>

text \<open>
  These definitions follow the words of the specification, not the source: the shape of
  each fragment with its identifier, its target and the text it embeds. The theorems
  below compare what the source computes with them.
\<close>

definition prior_fragment :: "string \<Rightarrow> string \<Rightarrow> string \<Rightarrow> string" where
  "prior_fragment ident x body =
     ''<prior id=\"'' @ ident @ ''\" name=\"distribution\" x=\"'' @ x @ ''\">'' @ body @
     ''</prior>''"

text \<open>The fragments of a sliced prior, for \<open>k = 1..n\<close>.\<close>

definition spec_sliced_fragments :: "'v Prior \<Rightarrow> string list" where
  "spec_sliced_fragments self =
     map (\<lambda>k. prior_fragment (id_str self @ ''Slice'' @ str_nat k)
                (''@'' @ id_str self @ str_nat k)
                (Distribution_xml (distribution self ! (k - 1))))
         [1..<length (distribution self) + 1]"

definition rate_change_times_fragment :: "string \<Rightarrow> string \<Rightarrow> string" where
  "rate_change_times_fragment tag v =
     ''<'' @ tag @ '' spec=\"beast.core.parameter.RealParameter\" value=\"'' @ v @ ''\"/>''"

definition excludable_prior_fragment ::
  "string \<Rightarrow> string \<Rightarrow> string \<Rightarrow> string \<Rightarrow> string \<Rightarrow> string" where
  "excludable_prior_fragment ident x dimen incl body =
     ''<distribution id=\"'' @ ident @
     ''\" spec=\"multitypetree.distributions.ExcludablePrior\" x=\"'' @ x @ ''\">'' @
     ''<xInclude id=\"samplingProportionXInclude\" spec=\"parameter.BooleanParameter\" '' @
     ''dimension=\"'' @ dimen @ ''\">'' @ incl @ ''</xInclude>'' @ body @ ''</distribution>''"

text \<open>The inclusion mask: entry \<open>k\<close> is true iff \<open>initial[k]\<close> is not zero.\<close>

definition spec_inclusion_mask :: "('v::zero) Prior \<Rightarrow> bool list" where
  "spec_inclusion_mask self = map (\<lambda>k. initial self ! k \<noteq> 0) [0..<length (initial self)]"

definition bool_text :: "bool \<Rightarrow> string" where
  "bool_text b = (if b then ''true'' else ''false'')"

subsection \<open>Examples\<close>

text \<open>
  Python's \<open>str\<close> on a float that is a whole number of fewer than 17 digits: the digits,
  then \<open>.0\<close>. The examples print their numbers with it.
\<close>

definition str_whole :: "real \<Rightarrow> string" where
  "str_whole x = str_int \<lfloor>x\<rfloor> @ ''.0''"

text \<open>A generator of identifiers for the examples: a counter, printed.\<close>

definition counter_uuid :: "nat \<Rightarrow> string \<times> nat" where
  "counter_uuid n = (str_nat n, n + 1)"

text \<open>The keyword arguments \<open>distribution=[], initial=[0.0, 1.5, 0.0]\<close>.\<close>

definition example_kwargs :: "real kwargs" where
  "example_kwargs =
     \<lparr>kw_id = None, kw_distribution = [], kw_initial = [0, 3 / 2, 0],
      kw_lower = None, kw_upper = None, kw_dimension = None, kw_sliced = None,
      kw_intervals = None, kw_param_spec = None\<rparr>"

definition example_unsliced :: "real Prior" where
  "example_unsliced =
     \<lparr>id_str = ''clockRate'', distribution = [Distribution ''<Exponential/>''],
      initial = [2], lower = Finite 0, upper = Infinity, dimension = 1, sliced = False,
      intervals = [], param_spec = ''parameter.RealParameter''\<rparr>"

definition example_sliced :: "real Prior" where
  "example_sliced =
     \<lparr>id_str = ''rho'', distribution = [Distribution ''<Beta/>'', Distribution ''<Uniform/>''],
      initial = [0, 3 / 2, 0], lower = Finite 0, upper = Finite 1, dimension = 3,
      sliced = True, intervals = [0, 5], param_spec = ''parameter.RealParameter''\<rparr>"

section \<open>Properties\<close>

subsection \<open>Helper lemmas\<close>

lemma xml_loop_enumerate:
  "xml_loop ident i ds acc =
     acc @ concat (map (\<lambda>(k, d). prior_fragment (ident @ ''Slice'' @ str_nat (k + 1))
                                   (''@'' @ ident @ str_nat (k + 1)) (Distribution_xml d))
                       (enumerate i ds))"
  by (induction ds arbitrary: i acc) (simp_all add: prior_fragment_def)

lemma enumerate_shift:
  "map (\<lambda>(k, d). f (k + 1) d) (enumerate 0 ds) =
   map (\<lambda>k. f k (ds ! (k - 1))) [1..<length ds + 1]"
  by (rule nth_equalityI) (simp_all del: upt_Suc add: nth_enumerate_eq)

lemma map_by_index: "map f xs = map (\<lambda>k. f (xs ! k)) [0..<length xs]"
  by (rule nth_equalityI) simp_all

lemma rate_change_times_tag_cases:
  "startswith i ''rho'' \<or> startswith i ''samplingProportion''
     \<Longrightarrow> rate_change_times_tag i = Inr ''samplingRateChangeTimes''"
  "startswith i ''reproductiveNumber'' \<Longrightarrow> rate_change_times_tag i = Inr ''birthRateChangeTimes''"
  "startswith i ''becomeUninfectious'' \<Longrightarrow> rate_change_times_tag i = Inr ''deathRateChangeTimes''"
  "\<not> startswith i ''rho'' \<Longrightarrow> \<not> startswith i ''samplingProportion'' \<Longrightarrow>
   \<not> startswith i ''reproductiveNumber'' \<Longrightarrow> \<not> startswith i ''becomeUninfectious''
     \<Longrightarrow> rate_change_times_tag i = Inl (CritterError rate_change_times_message)"
  "startswith i ''origin'' \<Longrightarrow> rate_change_times_tag i = Inl (CritterError rate_change_times_message)"
  by (auto simp: rate_change_times_tag_def startswith_def prefix_def)

lemma rate_change_times_message_roles:
  "occurs_in ''rho'' rate_change_times_message"
  "occurs_in ''samplingProportion'' rate_change_times_message"
  "occurs_in ''reproductiveNumber'' rate_change_times_message"
  "occurs_in ''becomeUninfectious'' rate_change_times_message"
  by (simp_all add: rate_change_times_message_def)

lemmas init_defs =
  Prior_init_def validate_sliced_id_def ValidationError_call_def sliced_prefixes_def
  fields_of_def the_default_def Prior_defaults_def

subsection \<open>Construction and the sliced-id rule\<close>

text \<open>
  Claim C1, as amended. A construction with \<open>sliced\<close> true whose \<open>id\<close> starts with none of
  the five prefixes origin, rho, samplingProportion, reproductiveNumber, becomeUninfectious
  fails with a validation error, pydantic's \<open>ValidationError\<close> for the root validator. A
  construction with \<open>sliced\<close> true whose \<open>id\<close> starts with one of them passes the validation
  and returns the Prior.
\<close>

theorem Prior_init_sliced:
  assumes "sliced (fields_of cls kw)"
  shows "(\<not> (startswith (id_str (fields_of cls kw)) ''origin''
             \<or> startswith (id_str (fields_of cls kw)) ''rho''
             \<or> startswith (id_str (fields_of cls kw)) ''samplingProportion''
             \<or> startswith (id_str (fields_of cls kw)) ''reproductiveNumber''
             \<or> startswith (id_str (fields_of cls kw)) ''becomeUninfectious'') \<longrightarrow>
            (\<exists>e. Prior_init cls kw = Inl (ValidationError ''__root__'' e)))
       \<and> (startswith (id_str (fields_of cls kw)) ''origin''
             \<or> startswith (id_str (fields_of cls kw)) ''rho''
             \<or> startswith (id_str (fields_of cls kw)) ''samplingProportion''
             \<or> startswith (id_str (fields_of cls kw)) ''reproductiveNumber''
             \<or> startswith (id_str (fields_of cls kw)) ''becomeUninfectious'' \<longrightarrow>
            Prior_init cls kw = Inr (fields_of cls kw))"
  using assms
  by (simp add: Prior_init_def validate_sliced_id_def sliced_prefixes_def)

text \<open>
  Two sliced constructions: \<open>id="rhoSkyline"\<close> passes, \<open>id="clockRate"\<close> fails.
\<close>

theorem Prior_init_sliced_witness:
  "sliced (fields_of (Prior_defaults ''0'')
             (example_kwargs\<lparr>kw_id := Some ''rhoSkyline'', kw_sliced := Some True\<rparr>))
   \<and> Prior_init (Prior_defaults ''0'')
        (example_kwargs\<lparr>kw_id := Some ''rhoSkyline'', kw_sliced := Some True\<rparr>) =
       Inr \<lparr>id_str = ''rhoSkyline'', distribution = [], initial = [0, 3 / 2, 0],
            lower = NegInfinity, upper = Infinity, dimension = 1, sliced = True,
            intervals = [], param_spec = ''parameter.RealParameter''\<rparr>
   \<and> sliced (fields_of (Prior_defaults ''0'')
               (example_kwargs\<lparr>kw_id := Some ''clockRate'', kw_sliced := Some True\<rparr>))
   \<and> Prior_init (Prior_defaults ''0'')
        (example_kwargs\<lparr>kw_id := Some ''clockRate'', kw_sliced := Some True\<rparr>) =
       Inl (ValidationError ''__root__'' (TypeError ''model''))"
  using
    Prior_init_sliced [of "Prior_defaults ''0''"
      "example_kwargs\<lparr>kw_id := Some ''rhoSkyline'', kw_sliced := Some True\<rparr>"]
    Prior_init_sliced [of "Prior_defaults ''0''"
      "example_kwargs\<lparr>kw_id := Some ''clockRate'', kw_sliced := Some True\<rparr>"]
  by (simp add: init_defs example_kwargs_def startswith_def)

text \<open>
  Claim C1 as it is written fails: the sliced construction with \<open>id="clockRate"\<close> is
  refused with an error that names neither the offending id \<open>clockRate\<close> nor any of the
  five allowed prefixes.
\<close>

theorem Prior_init_sliced_counterexample:
  "Prior_init (Prior_defaults ''0'')
     (example_kwargs\<lparr>kw_id := Some ''clockRate'', kw_sliced := Some True\<rparr>) =
     Inl (ValidationError ''__root__'' (TypeError ''model''))
   \<and> \<not> mentions ''clockRate'' (ValidationError ''__root__'' (TypeError ''model''))
   \<and> \<not> mentions ''origin'' (ValidationError ''__root__'' (TypeError ''model''))
   \<and> \<not> mentions ''rho'' (ValidationError ''__root__'' (TypeError ''model''))
   \<and> \<not> mentions ''samplingProportion'' (ValidationError ''__root__'' (TypeError ''model''))
   \<and> \<not> mentions ''reproductiveNumber'' (ValidationError ''__root__'' (TypeError ''model''))
   \<and> \<not> mentions ''becomeUninfectious'' (ValidationError ''__root__'' (TypeError ''model''))"
  by (simp add: init_defs example_kwargs_def startswith_def)

subsection \<open>Rendering the prior\<close>

text \<open>
  Claim C2. For a Prior with \<open>sliced\<close> true and \<open>n\<close> distributions, \<open>xml\<close> returns the
  \<open>n\<close> fragments for \<open>k = 1..n\<close> concatenated in that order with nothing between them;
  fragment \<open>k\<close> has identifier \<open><id>Slice<k>\<close>, target \<open>@<id><k>\<close> and embeds the rendering
  of \<open>distribution[k-1]\<close>.
\<close>

theorem xml_sliced:
  assumes "sliced self"
  shows "xml self = Inr (concat (spec_sliced_fragments self))
       \<and> length (spec_sliced_fragments self) = length (distribution self)"
proof -
  let ?f = "\<lambda>k d. prior_fragment (id_str self @ ''Slice'' @ str_nat k)
                    (''@'' @ id_str self @ str_nat k) (Distribution_xml d)"
  have "xml self = Inr (concat (map (\<lambda>(k, d). ?f (k + 1) d) (enumerate 0 (distribution self))))"
    using assms by (simp add: xml_def xml_loop_enumerate)
  also have "map (\<lambda>(k, d). ?f (k + 1) d) (enumerate 0 (distribution self)) =
             map (\<lambda>k. ?f k (distribution self ! (k - 1))) [1..<length (distribution self) + 1]"
    by (rule enumerate_shift)
  finally have "xml self = Inr (concat (spec_sliced_fragments self))"
    by (simp only: spec_sliced_fragments_def)
  moreover have "length (spec_sliced_fragments self) = length (distribution self)"
    by (simp add: spec_sliced_fragments_def del: upt_Suc)
  ultimately show ?thesis by simp
qed

theorem xml_sliced_witness:
  "sliced example_sliced
   \<and> xml example_sliced =
       Inr (''<prior id=\"rhoSlice1\" name=\"distribution\" x=\"@rho1\"><Beta/></prior>'' @
            ''<prior id=\"rhoSlice2\" name=\"distribution\" x=\"@rho2\"><Uniform/></prior>'')"
  using xml_sliced [of example_sliced]
  by (simp add: example_sliced_def spec_sliced_fragments_def prior_fragment_def
      str_nat.simps digit_char_def)

text \<open>
  Claim C3. For a Prior with \<open>sliced\<close> false and a non-empty \<open>distribution\<close>, \<open>xml\<close> (of the
  class \<open>Prior\<close>) returns one \<open>prior\<close> fragment with identifier \<open><id>Prior\<close> and target
  \<open>@<id>\<close>, which embeds the rendering of \<open>distribution[0]\<close> as it is.
\<close>

theorem xml_unsliced:
  assumes "\<not> sliced self" and "distribution self \<noteq> []"
  shows "xml self =
           Inr (prior_fragment (id_str self @ ''Prior'') (''@'' @ id_str self)
                  (Distribution_xml (distribution self ! 0)))"
  using assms by (cases "distribution self") (simp_all add: xml_def prior_fragment_def)

theorem xml_unsliced_witness:
  "\<not> sliced example_unsliced \<and> distribution example_unsliced \<noteq> []
   \<and> xml example_unsliced =
       Inr ''<prior id=\"clockRatePrior\" name=\"distribution\" x=\"@clockRate\"><Exponential/></prior>''"
  using xml_unsliced [of example_unsliced]
  by (simp add: example_unsliced_def prior_fragment_def)

subsection \<open>The slice-only renderers\<close>

text \<open>
  Claim C9. For a Prior with \<open>sliced\<close> false, \<open>xml_slice_function\<close>,
  \<open>xml_slice_rate_change_times\<close> and \<open>xml_slice_logger\<close> each return the empty string, and
  none raises.
\<close>

theorem unsliced_renderers_empty:
  assumes "\<not> sliced self"
  shows "xml_slice_function self = []
       \<and> xml_slice_rate_change_times str self = Inr []
       \<and> xml_slice_logger self = []"
  using assms
  by (simp add: xml_slice_function_def xml_slice_rate_change_times_def xml_slice_logger_def)

theorem unsliced_renderers_empty_witness:
  "\<not> sliced example_unsliced
   \<and> xml_slice_function example_unsliced = []
   \<and> xml_slice_rate_change_times str_whole example_unsliced = Inr []
   \<and> xml_slice_logger example_unsliced = []"
  using unsliced_renderers_empty [of example_unsliced str_whole]
  by (simp add: example_unsliced_def)

text \<open>
  Claim C4. For a Prior with \<open>sliced\<close> true, \<open>xml_slice_rate_change_times\<close> returns one
  fragment whose tag is \<open>samplingRateChangeTimes\<close> when \<open>id\<close> starts with rho or
  samplingProportion, \<open>birthRateChangeTimes\<close> when it starts with reproductiveNumber and
  \<open>deathRateChangeTimes\<close> when it starts with becomeUninfectious, with the intervals joined
  by spaces as its value. When \<open>id\<close> starts with none of the four, origin included, it
  raises a \<open>CritterError\<close> whose message names the four roles.
\<close>

theorem rate_change_times_sliced:
  assumes "sliced self"
  shows "((startswith (id_str self) ''rho'' \<or> startswith (id_str self) ''samplingProportion'') \<longrightarrow>
            xml_slice_rate_change_times str self =
              Inr (rate_change_times_fragment ''samplingRateChangeTimes''
                     (join '' '' (map str (intervals self)))))
       \<and> (startswith (id_str self) ''reproductiveNumber'' \<longrightarrow>
            xml_slice_rate_change_times str self =
              Inr (rate_change_times_fragment ''birthRateChangeTimes''
                     (join '' '' (map str (intervals self)))))
       \<and> (startswith (id_str self) ''becomeUninfectious'' \<longrightarrow>
            xml_slice_rate_change_times str self =
              Inr (rate_change_times_fragment ''deathRateChangeTimes''
                     (join '' '' (map str (intervals self)))))
       \<and> (\<not> startswith (id_str self) ''rho'' \<and> \<not> startswith (id_str self) ''samplingProportion''
          \<and> \<not> startswith (id_str self) ''reproductiveNumber''
          \<and> \<not> startswith (id_str self) ''becomeUninfectious'' \<longrightarrow>
            xml_slice_rate_change_times str self = Inl (CritterError rate_change_times_message))
       \<and> (startswith (id_str self) ''origin'' \<longrightarrow>
            xml_slice_rate_change_times str self = Inl (CritterError rate_change_times_message))
       \<and> occurs_in ''rho'' rate_change_times_message
       \<and> occurs_in ''samplingProportion'' rate_change_times_message
       \<and> occurs_in ''reproductiveNumber'' rate_change_times_message
       \<and> occurs_in ''becomeUninfectious'' rate_change_times_message"
  using assms
  by (simp add: xml_slice_rate_change_times_def rate_change_times_tag_cases
      rate_change_times_message_roles rate_change_times_fragment_def)

text \<open>The sliced example with \<open>id="rho"\<close> and intervals \<open>[0.0, 5.0]\<close>, and with \<open>id="origin"\<close>.\<close>

theorem rate_change_times_sliced_witness:
  "sliced example_sliced
   \<and> xml_slice_rate_change_times str_whole example_sliced =
       Inr ''<samplingRateChangeTimes spec=\"beast.core.parameter.RealParameter\" value=\"0.0 5.0\"/>''
   \<and> sliced (example_sliced\<lparr>id_str := ''origin''\<rparr>)
   \<and> xml_slice_rate_change_times str_whole (example_sliced\<lparr>id_str := ''origin''\<rparr>) =
       Inl (CritterError rate_change_times_message)"
  using rate_change_times_sliced [of example_sliced str_whole]
    rate_change_times_sliced [of "example_sliced\<lparr>id_str := ''origin''\<rparr>" str_whole]
  by (simp add: example_sliced_def startswith_def rate_change_times_fragment_def
      str_whole_def str_int_def str_nat.simps digit_char_def)

subsection \<open>Empty distributions\<close>

text \<open>
  Claim C5, as amended. Construction does not look at the length of \<open>distribution\<close>: with
  an empty \<open>distribution\<close> it succeeds whenever the sliced-id rule holds (\<open>sliced\<close> false,
  or an \<open>id\<close> with an allowed prefix), and the Prior it returns has an empty
  \<open>distribution\<close>. On such a Prior with \<open>sliced\<close> false, \<open>xml\<close> raises an \<open>IndexError\<close>.
\<close>

theorem empty_distribution_accepted:
  assumes "kw_distribution kw = []"
    and "\<not> sliced (fields_of cls kw) \<or> startswith_any (id_str (fields_of cls kw)) sliced_prefixes"
  shows "Prior_init cls kw = Inr (fields_of cls kw)
       \<and> distribution (fields_of cls kw) = []
       \<and> (\<not> sliced (fields_of cls kw) \<longrightarrow> xml (fields_of cls kw) = Inl IndexError)"
  using assms
  by (auto simp: Prior_init_def validate_sliced_id_def fields_of_def xml_def)

theorem empty_distribution_accepted_witness:
  "kw_distribution example_kwargs = []
   \<and> \<not> sliced (fields_of (Prior_defaults ''0'') example_kwargs)
   \<and> Prior_init (Prior_defaults ''0'') example_kwargs =
       Inr \<lparr>id_str = ''Prior.0'', distribution = [], initial = [0, 3 / 2, 0],
            lower = NegInfinity, upper = Infinity, dimension = 1, sliced = False,
            intervals = [], param_spec = ''parameter.RealParameter''\<rparr>
   \<and> xml (fields_of (Prior_defaults ''0'') example_kwargs) = Inl IndexError"
  using empty_distribution_accepted [of example_kwargs "Prior_defaults ''0''"]
  by (simp add: fields_of_def the_default_def Prior_defaults_def example_kwargs_def)

text \<open>
  Claim C5 as it is written fails: \<open>Prior(distribution=[], initial=[0.0, 1.5, 0.0])\<close> is
  constructed, with an empty \<open>distribution\<close>.
\<close>

theorem empty_distribution_counterexample:
  "(case Prior_init (Prior_defaults ''0'') example_kwargs of
      Inl e \<Rightarrow> False
    | Inr self \<Rightarrow> distribution self = [])"
  by (simp add: init_defs example_kwargs_def)

subsection \<open>SamplingProportionMTBD\<close>

text \<open>
  Claim C6, as amended. For a SamplingProportionMTBD with a non-empty \<open>distribution\<close>,
  \<open>xml\<close> returns one excludable-prior fragment that declares the inclusion mask, one
  boolean for each element of \<open>initial\<close>, entry \<open>k\<close> true iff \<open>initial[k]\<close> is not zero;
  for \<open>initial = [0.0, 1.5, 0.0]\<close> the mask reads \<open>false true false\<close>.
\<close>

theorem SamplingProportionMTBD_xml_mask:
  assumes "distribution self \<noteq> []"
  shows "SamplingProportionMTBD_xml self =
           Inr (excludable_prior_fragment (id_str self @ ''Prior'') (''@'' @ id_str self)
                  (str_int (dimension self))
                  (join '' '' (map bool_text (spec_inclusion_mask self)))
                  (Distribution_xml (distribution self ! 0)))
       \<and> length (spec_inclusion_mask self) = length (initial self)
       \<and> (initial self = [a, b, c] \<and> a = 0 \<and> b \<noteq> 0 \<and> c = 0 \<longrightarrow>
            join '' '' (map bool_text (spec_inclusion_mask self)) = ''false true false'')"
proof -
  have mask: "get_include_string self = join '' '' (map bool_text (spec_inclusion_mask self))"
  proof -
    have "map (\<lambda>v. if v \<noteq> 0 then ''true'' else ''false'') (initial self) =
          map (\<lambda>k. if initial self ! k \<noteq> 0 then ''true'' else ''false'')
            [0..<length (initial self)]"
      by (rule map_by_index)
    then show ?thesis
      by (simp add: get_include_string_def spec_inclusion_mask_def bool_text_def comp_def)
  qed
  have "SamplingProportionMTBD_xml self =
          Inr (excludable_prior_fragment (id_str self @ ''Prior'') (''@'' @ id_str self)
                 (str_int (dimension self)) (get_include_string self)
                 (Distribution_xml (distribution self ! 0)))"
    using assms
    by (cases "distribution self")
       (simp_all add: SamplingProportionMTBD_xml_def excludable_prior_fragment_def)
  moreover have "length (spec_inclusion_mask self) = length (initial self)"
    by (simp add: spec_inclusion_mask_def)
  moreover have "initial self = [a, b, c] \<and> a = 0 \<and> b \<noteq> 0 \<and> c = 0 \<longrightarrow>
      join '' '' (map bool_text (spec_inclusion_mask self)) = ''false true false''"
    unfolding mask [symmetric] by (simp add: get_include_string_def)
  ultimately show ?thesis by (simp only: mask) 
qed

text \<open>The sliced example has two distributions and \<open>initial = [0.0, 1.5, 0.0]\<close>.\<close>

theorem SamplingProportionMTBD_xml_mask_witness:
  "distribution example_sliced \<noteq> []
   \<and> initial example_sliced = [0, 3 / 2, 0]
   \<and> SamplingProportionMTBD_xml example_sliced =
       Inr (''<distribution id=\"rhoPrior\" spec=\"multitypetree.distributions.ExcludablePrior\" '' @
            ''x=\"@rho\"><xInclude id=\"samplingProportionXInclude\" '' @
            ''spec=\"parameter.BooleanParameter\" dimension=\"3\">false true false</xInclude>'' @
            ''<Beta/></distribution>'')"
  using SamplingProportionMTBD_xml_mask [of example_sliced 0 "3 / 2" 0]
  by (simp add: example_sliced_def excludable_prior_fragment_def str_int_def str_nat.simps
      digit_char_def)

text \<open>
  Claim C6 as it is written fails: \<open>SamplingProportionMTBD(distribution=[], initial=[0.0,
  1.5, 0.0])\<close> is constructed, and its \<open>xml\<close> raises an \<open>IndexError\<close> instead of returning
  a fragment.
\<close>

theorem SamplingProportionMTBD_xml_counterexample:
  "(case Prior_init (SamplingProportionMTBD (Prior_defaults ''0'')) example_kwargs of
      Inl e \<Rightarrow> False
    | Inr self \<Rightarrow> SamplingProportionMTBD_xml self = Inl IndexError)"
  by (simp add: init_defs SamplingProportionMTBD_def example_kwargs_def
      SamplingProportionMTBD_xml_def)

subsection \<open>Rendering the parameter\<close>

text \<open>
  Claim C7. For a Prior with a non-empty \<open>initial\<close>, \<open>xml_param\<close> hands the parameter
  adapter, as its value, all elements joined by single spaces in their order when there is
  more than one, and the lone element itself otherwise. With \<open>initial = [2.0]\<close> the value
  text is \<open>2.0\<close>, and with \<open>initial = [1.0, 2.0, 3.0]\<close> it is \<open>1.0 2.0 3.0\<close>, where \<open>str\<close>
  prints these floats as Python does.
\<close>

theorem xml_param_value:
  assumes "initial self \<noteq> []"
  shows "xml_param RealParameter_xml str self =
           Inr (RealParameter_xml
                 \<lparr>rp_id = id_str self, rp_name = ''stateNode'',
                  rp_value = (if length (initial self) > 1
                              then Str (join '' '' (map str (initial self)))
                              else Obj (initial self ! 0)),
                  rp_spec = param_spec self, rp_dimension = dimension self,
                  rp_lower = lower self, rp_upper = upper self\<rparr>)
       \<and> xml_param_initial str self =
           Inr (if length (initial self) > 1 then Str (join '' '' (map str (initial self)))
                else Obj (initial self ! 0))
       \<and> (initial self = [a] \<and> dimension self = 1 \<and> str a = ''2.0'' \<longrightarrow>
            map_sum id (value_text str) (xml_param_initial str self) = Inr ''2.0'')
       \<and> (initial self = [a, b, c] \<and> str a = ''1.0'' \<and> str b = ''2.0'' \<and> str c = ''3.0'' \<longrightarrow>
            map_sum id (value_text str) (xml_param_initial str self) = Inr ''1.0 2.0 3.0'')"
  using assms
  by (cases "initial self") (auto simp: xml_param_def xml_param_initial_def value_text_def)

text \<open>
  \<open>initial = [2.0]\<close> with \<open>dimension = 1\<close>, and \<open>initial = [1.0, 2.0, 3.0]\<close>, with an adapter
  that returns the value text alone.
\<close>

theorem xml_param_value_witness:
  "initial example_unsliced = [2] \<and> dimension example_unsliced = 1 \<and> str_whole 2 = ''2.0''
   \<and> xml_param (\<lambda>r. value_text str_whole (rp_value r)) str_whole example_unsliced = Inr ''2.0''
   \<and> initial (example_unsliced\<lparr>initial := [1, 2, 3]\<rparr>) = [1, 2, 3]
   \<and> str_whole 1 = ''1.0'' \<and> str_whole 3 = ''3.0''
   \<and> xml_param (\<lambda>r. value_text str_whole (rp_value r)) str_whole
        (example_unsliced\<lparr>initial := [1, 2, 3]\<rparr>) = Inr ''1.0 2.0 3.0''"
  using
    xml_param_value [of example_unsliced "\<lambda>r. value_text str_whole (rp_value r)" str_whole 2]
    xml_param_value [of "example_unsliced\<lparr>initial := [1, 2, 3]\<rparr>"
      "\<lambda>r. value_text str_whole (rp_value r)" str_whole 1 2 3]
  by (simp add: example_unsliced_def value_text_def str_whole_def str_int_def str_nat.simps
      digit_char_def)

subsection \<open>GroupSize\<close>

text \<open>
  Claim C8, as amended. A GroupSize constructed without a \<open>param_spec\<close> argument carries
  \<open>param_spec = parameter.IntegerParameter\<close>; a \<open>param_spec\<close> that the caller passes is
  the one the instance carries.
\<close>

theorem GroupSize_param_spec:
  assumes "Prior_init (GroupSize cls) kw = Inr self"
  shows "param_spec self =
           (case kw_param_spec kw of
              None \<Rightarrow> ''parameter.IntegerParameter''
            | Some spec \<Rightarrow> spec)"
  using assms
  by (auto simp: Prior_init_def validate_sliced_id_def fields_of_def the_default_def
      GroupSize_def split: if_splits option.splits)

theorem GroupSize_param_spec_witness:
  "Prior_init (GroupSize (Prior_defaults ''0'')) example_kwargs =
     Inr \<lparr>id_str = ''bGroupSizes'', distribution = [], initial = [0, 3 / 2, 0],
          lower = NegInfinity, upper = Infinity, dimension = 1, sliced = False,
          intervals = [], param_spec = ''parameter.IntegerParameter''\<rparr>
   \<and> param_spec
        \<lparr>id_str = ''bGroupSizes'', distribution = [], initial = [0, 3 / 2, 0 :: real],
         lower = NegInfinity, upper = Infinity, dimension = 1, sliced = False,
         intervals = [], param_spec = ''parameter.IntegerParameter''\<rparr> =
       ''parameter.IntegerParameter''"
  using GroupSize_param_spec [of "Prior_defaults ''0''" example_kwargs
      "\<lparr>id_str = ''bGroupSizes'', distribution = [], initial = [0, 3 / 2, 0],
        lower = NegInfinity, upper = Infinity, dimension = 1, sliced = False,
        intervals = [], param_spec = ''parameter.IntegerParameter''\<rparr>"]
  by (simp add: init_defs GroupSize_def example_kwargs_def)

text \<open>
  Claim C8 as it is written fails: \<open>GroupSize(distribution=[], initial=[0.0, 1.5, 0.0],
  param_spec="parameter.RealParameter")\<close> is constructed and carries the caller's value.
\<close>

theorem GroupSize_param_spec_counterexample:
  "(case Prior_init (GroupSize (Prior_defaults ''0''))
           (example_kwargs\<lparr>kw_param_spec := Some ''parameter.RealParameter''\<rparr>) of
      Inl e \<Rightarrow> False
    | Inr self \<Rightarrow> param_spec self = ''parameter.RealParameter''
                  \<and> param_spec self \<noteq> ''parameter.IntegerParameter'')"
  by (simp add: init_defs GroupSize_def example_kwargs_def)

subsection \<open>The default identifier\<close>

text \<open>
  Claim C10. The default \<open>id\<close> of \<open>Prior\<close> is computed when the class is defined: the one
  call of \<open>get_uuid\<close> is in the class body, a construction calls nothing. So any two
  constructions of that class without an \<open>id\<close> argument that succeed give the same
  identifier, \<open>Prior.\<close> followed by the string \<open>get_uuid\<close> returned then.
\<close>

theorem default_id_shared:
  assumes "Prior_class get_uuid g = (cls, g')"
    and "kw_id kw1 = None" and "kw_id kw2 = None"
    and "Prior_init cls kw1 = Inr p1" and "Prior_init cls kw2 = Inr p2"
  shows "id_str p1 = id_str p2 \<and> id_str p1 = ''Prior.'' @ fst (get_uuid g)"
  using assms
  by (auto simp: Prior_class_def Prior_init_def validate_sliced_id_def fields_of_def
      the_default_def Prior_defaults_def split: if_splits prod.splits)

text \<open>Two constructions with different arguments, after the counter stood at 7.\<close>

theorem default_id_shared_witness:
  "Prior_class counter_uuid 7 = (Prior_defaults ''7'' :: real defaults, 8)
   \<and> kw_id example_kwargs = None
   \<and> kw_id (example_kwargs\<lparr>kw_initial := [1], kw_dimension := Some 2\<rparr>) = None
   \<and> Prior_init (Prior_defaults ''7'') example_kwargs =
       Inr (fields_of (Prior_defaults ''7'') example_kwargs)
   \<and> Prior_init (Prior_defaults ''7'')
        (example_kwargs\<lparr>kw_initial := [1], kw_dimension := Some 2\<rparr>) =
       Inr (fields_of (Prior_defaults ''7'')
              (example_kwargs\<lparr>kw_initial := [1], kw_dimension := Some 2\<rparr>))
   \<and> id_str (fields_of (Prior_defaults ''7'') example_kwargs) = ''Prior.7''
   \<and> id_str (fields_of (Prior_defaults ''7'')
               (example_kwargs\<lparr>kw_initial := [1], kw_dimension := Some 2\<rparr>)) = ''Prior.7''"
  using default_id_shared [of counter_uuid 7 "Prior_defaults ''7''" 8 example_kwargs
      "example_kwargs\<lparr>kw_initial := [1], kw_dimension := Some 2\<rparr>"
      "fields_of (Prior_defaults ''7'') example_kwargs"
      "fields_of (Prior_defaults ''7'')
         (example_kwargs\<lparr>kw_initial := [1], kw_dimension := Some 2\<rparr>)"]
  by (simp add: Prior_class_def counter_uuid_def init_defs example_kwargs_def
      str_nat.simps digit_char_def)

end
